theory Spec2Isabelle
  imports Main "HOL-Library.AList"
begin

section \<open>The diagram magics of \<open>extensions/diagmagic.py\<close>\<close>

text \<open>
  The module keeps four globals (\<open>_draw_mode\<close>, \<open>_publish_mode\<close>,
  \<open>_inkscape_available\<close>, \<open>_loaded\<close>) and acts on the outside world through the
  file system, two output streams, subprocesses, the host's display publication call and
  the host's magic registry. The embedding threads all of that through one record,
  \<open>world\<close>; the behaviour of the outside (which names \<open>tempfile\<close> picks, what a
  subprocess or a renderer does) is a parameter, the record \<open>env\<close>.
\<close>

subsection \<open>Values, exceptions and the outside world\<close>

type_synonym bytes = string

text \<open>Python exceptions that can leave the functions of the module.\<close>

datatype exn =
    OSError string
  | IOError string
  | UnboundLocalError string
  | ImportError string
  | RendererError string

text \<open>
  An entry of a directory is a regular file with its bytes or a subdirectory. A
  directory is the association list of its entries; the file system maps the path of a
  directory to its contents. An entry \<open>d + "/" + n\<close> is addressed by the pair \<open>(d, n)\<close>.
\<close>

datatype node =
    File bytes
  | Subdir

type_synonym directory = "(string \<times> node) list"
type_synonym filesystem = "string \<rightharpoonup> directory"

text \<open>
  What an external program leaves behind: entries \<open>(directory, name, node)\<close>, regular
  files or subdirectories.
\<close>

type_synonym writes = "(string \<times> string \<times> node) list"

text \<open>
  \<open>subprocess.call(args, ...)\<close> either runs the program and returns its exit code, or
  raises \<open>OSError\<close> when the program cannot be started. It never raises
  \<open>CalledProcessError\<close> (only \<open>check_call\<close> and \<open>check_output\<close> do).
\<close>

datatype proc_outcome =
    Exited int writes
  | Not_started string

text \<open>\<open>command.main(argv)\<close> of a renderer module returns or raises.\<close>

datatype main_outcome =
    Main_returned writes
  | Main_raised exn writes

type_synonym command = "filesystem \<Rightarrow> string list \<Rightarrow> main_outcome"

text \<open>The arguments of a call of the host's \<open>publish_display_data\<close>.\<close>

datatype pyval =
    PyNone
  | PyStr string
  | PyDict "(string \<times> bytes) list"

text \<open>
  The state of one process. The first four fields are the module's globals
  (\<open>inkscape_cache\<close> is \<open>_inkscape_available\<close>, \<open>None\<close> until the probe has run); \<open>files\<close> is
  the file system; the other fields record, in order, what the process did to the
  outside: the lines printed to \<open>sys.stdout\<close> and to \<open>sys.stderr\<close>, the argument lists
  handed to \<open>subprocess.call\<close>, the directories \<open>tempfile.mkdtemp\<close> created, the calls of
  \<open>publish_display_data\<close> with their three positional arguments, and the classes handed
  to \<open>ip.register_magics\<close>.
\<close>

record world =
  draw_mode :: string
  publish_mode :: string
  inkscape_cache :: "bool option"
  loaded :: bool
  files :: filesystem
  stdout_lines :: "string list"
  stderr_lines :: "string list"
  spawned :: "string list list"
  created_dirs :: "string list"
  published :: "(pyval \<times> pyval \<times> pyval) list"
  registered :: "string list"

text \<open>
  The surroundings of the process: what a subprocess does given the file system and its
  arguments, the names \<open>tempfile\<close> picks (\<open>None\<close>: it raises \<open>OSError\<close>), whether
  writing the scratch file fails, and the \<open>command\<close> module of each renderer (\<open>None\<close>:
  its import raises \<open>ImportError\<close>).
\<close>

record env =
  subprocess_call :: "filesystem \<Rightarrow> string list \<Rightarrow> proc_outcome"
  mkdtemp_pick :: "filesystem \<Rightarrow> string option"
  mkstemp_pick :: "filesystem \<Rightarrow> string \<Rightarrow> string option"
  write_fault :: "filesystem \<Rightarrow> bool"
  actdiag_command :: "command option"
  blockdiag_command :: "command option"
  nwdiag_command :: "command option"
  seqdiag_command :: "command option"

text \<open>The globals as the module body sets them when it is imported.\<close>

definition module_init :: "filesystem \<Rightarrow> world" where
  "module_init fs0 =
     \<lparr> draw_mode = ''PNG'', publish_mode = ''PNG'', inkscape_cache = None,
       loaded = False, files = fs0, stdout_lines = [], stderr_lines = [],
       spawned = [], created_dirs = [], published = [], registered = [] \<rparr>"

subsection \<open>Strings and paths\<close>

definition lower_char :: "char \<Rightarrow> char" where
  "lower_char c =
     (if 65 \<le> (of_char c :: nat) \<and> (of_char c :: nat) \<le> 90
      then char_of ((of_char c :: nat) + 32) else c)"

definition lower :: "string \<Rightarrow> string" where
  "lower s = map lower_char s"

definition path_join :: "string \<Rightarrow> string \<Rightarrow> string" where
  "path_join d n = d @ ''/'' @ n"

subsection \<open>File system operations\<close>

definition put_entry :: "filesystem \<Rightarrow> string \<Rightarrow> string \<Rightarrow> node \<Rightarrow> filesystem" where
  "put_entry fs d n x =
     (case fs d of None \<Rightarrow> fs | Some es \<Rightarrow> fs(d \<mapsto> AList.update n x es))"

definition write_file :: "filesystem \<Rightarrow> string \<Rightarrow> string \<Rightarrow> bytes \<Rightarrow> filesystem" where
  "write_file fs d n dat = put_entry fs d n (File dat)"

fun apply_writes :: "writes \<Rightarrow> filesystem \<Rightarrow> filesystem" where
  "apply_writes [] fs = fs"
| "apply_writes ((d, n, x) # ws) fs = apply_writes ws (put_entry fs d n x)"

text \<open>\<open>io.open(d + "/" + n, 'rb').read()\<close>: the bytes of a regular file, or \<open>IOError\<close>.\<close>

definition read_file :: "filesystem \<Rightarrow> string \<Rightarrow> string \<Rightarrow> exn + bytes" where
  "read_file fs d n =
     (case fs d of None \<Rightarrow> Inl (IOError ''No such file or directory'')
      | Some es \<Rightarrow>
          (case map_of es n of None \<Rightarrow> Inl (IOError ''No such file or directory'')
           | Some Subdir \<Rightarrow> Inl (IOError ''Is a directory'')
           | Some (File dat) \<Rightarrow> Inr dat))"

definition os_listdir :: "filesystem \<Rightarrow> string \<Rightarrow> exn + string list" where
  "os_listdir fs d =
     (case fs d of None \<Rightarrow> Inl (OSError ''No such file or directory'')
      | Some es \<Rightarrow> Inr (map fst es))"

definition os_unlink :: "filesystem \<Rightarrow> string \<Rightarrow> string \<Rightarrow> exn + filesystem" where
  "os_unlink fs d n =
     (case fs d of None \<Rightarrow> Inl (OSError ''No such file or directory'')
      | Some es \<Rightarrow>
          (case map_of es n of None \<Rightarrow> Inl (OSError ''No such file or directory'')
           | Some Subdir \<Rightarrow> Inl (OSError ''Is a directory'')
           | Some (File _) \<Rightarrow> Inr (fs(d \<mapsto> AList.delete n es))))"

definition os_rmdir :: "filesystem \<Rightarrow> string \<Rightarrow> exn + filesystem" where
  "os_rmdir fs d =
     (case fs d of None \<Rightarrow> Inl (OSError ''No such file or directory'')
      | Some [] \<Rightarrow> Inr (fs(d := None))
      | Some (_ # _) \<Rightarrow> Inl (OSError ''Directory not empty''))"

text \<open>\<open>tempfile.mkdtemp()\<close>: a directory that did not exist before, or \<open>OSError\<close>.\<close>

definition tempfile_mkdtemp :: "env \<Rightarrow> filesystem \<Rightarrow> exn + (string \<times> filesystem)" where
  "tempfile_mkdtemp e fs =
     (case mkdtemp_pick e fs of None \<Rightarrow> Inl (OSError ''mkdtemp'')
      | Some d \<Rightarrow>
          (case fs d of Some _ \<Rightarrow> Inl (OSError ''File exists'')
           | None \<Rightarrow> Inr (d, fs(d \<mapsto> []))))"

text \<open>\<open>tempfile.mkstemp(dir=d)\<close>: a new empty file in \<open>d\<close>, or \<open>OSError\<close>.\<close>

definition tempfile_mkstemp :: "env \<Rightarrow> filesystem \<Rightarrow> string \<Rightarrow> exn + (string \<times> filesystem)" where
  "tempfile_mkstemp e fs d =
     (case fs d of None \<Rightarrow> Inl (OSError ''No such file or directory'')
      | Some es \<Rightarrow>
          (case mkstemp_pick e fs d of None \<Rightarrow> Inl (OSError ''mkstemp'')
           | Some n \<Rightarrow>
               (case map_of es n of Some _ \<Rightarrow> Inl (OSError ''File exists'')
                | None \<Rightarrow> Inr (n, fs(d \<mapsto> AList.update n (File []) es)))))"

subsection \<open>The methods of \<open>BlockdiagMagics\<close>\<close>

text \<open>
  \<open>run_command\<close> (lines 59 to 77). The call is \<open>subprocess.call\<close>, whose exit code is
  dropped, so the handler of \<open>CalledProcessError\<close> (the only place that prints to
  \<open>sys.stderr\<close>) is never entered and has no branch here. The handler of \<open>OSError\<close> prints
  to \<open>sys.stdout\<close>. The \<open>startupinfo\<close> of Windows only hides the console window.
\<close>

definition run_command :: "env \<Rightarrow> world \<Rightarrow> string list \<Rightarrow> world \<times> bool" where
  "run_command e w args =
     (case subprocess_call e (files w) args of
        Exited rc ws \<Rightarrow>
          (w\<lparr> spawned := spawned w @ [args], files := apply_writes ws (files w) \<rparr>, True)
      | Not_started msg \<Rightarrow>
          (w\<lparr> spawned := spawned w @ [args],
              stdout_lines := stdout_lines w @ [''Exception '' @ msg] \<rparr>, False))"

definition probe_args :: "string list" where
  "probe_args = [''inkscape'', ''--export-png'']"

definition inkscape_available :: "env \<Rightarrow> world \<Rightarrow> world \<times> bool" where
  "inkscape_available e w =
     (case inkscape_cache w of
        None \<Rightarrow>
          (case run_command e w probe_args of
             (w', r) \<Rightarrow> (w'\<lparr> inkscape_cache := Some r \<rparr>, r))
      | Some b \<Rightarrow> (w, b))"

definition svg2png :: "env \<Rightarrow> world \<Rightarrow> string \<Rightarrow> world" where
  "svg2png e w filename =
     fst (run_command e w
            [''inkscape'', filename @ ''.svg'', ''--export-png='' @ filename @ ''.png''])"

definition setdiagsvg :: "world \<Rightarrow> string \<Rightarrow> string option \<Rightarrow> world" where
  "setdiagsvg w line cell = w\<lparr> draw_mode := ''SVG'', publish_mode := ''SVG'' \<rparr>"

definition setdiagpng :: "world \<Rightarrow> string \<Rightarrow> string option \<Rightarrow> world" where
  "setdiagpng w line cell = w\<lparr> draw_mode := ''PNG'', publish_mode := ''PNG'' \<rparr>"

definition load_ipython_extension :: "world \<Rightarrow> world" where
  "load_ipython_extension w =
     (if \<not> loaded w
      then w\<lparr> registered := registered w @ [''BlockdiagMagics''], loaded := True \<rparr>
      else w)"

text \<open>
  The \<open>try\<close> block of \<open>diag\<close> (lines 98 to 128) once \<open>tmpdir\<close> is bound: the scratch
  file, the renderer, the optional conversion and the read of the output file. The
  result is the world at the point where the block is left, with the exception that left
  it or the bytes read.
\<close>

definition diag_try ::
  "env \<Rightarrow> world \<Rightarrow> string \<Rightarrow> bytes \<Rightarrow> command \<Rightarrow> world \<times> (exn + bytes)" where
  "diag_try e w tmpdir code cmd =
     (case tempfile_mkstemp e (files w) tmpdir of
        Inl x \<Rightarrow> (w, Inl x)
      | Inr (nm, fs1) \<Rightarrow>
          (let w1 = w\<lparr> files := fs1 \<rparr>;
               diag_name = path_join tmpdir nm
           in if write_fault e fs1 then (w1, Inl (IOError ''write''))
              else
                (let w2 = w1\<lparr> files := write_file fs1 tmpdir nm code \<rparr>;
                     format = lower (draw_mode w2);
                     draw_name = diag_name @ ''.'' @ format;
                     argv = [diag_name, ''-T'', format, ''-o'', draw_name]
                            @ (if draw_mode w2 = ''SVG'' then [[]] else [])
                 in case cmd (files w2) argv of
                      Main_raised x ws \<Rightarrow>
                        (w2\<lparr> files := apply_writes ws (files w2) \<rparr>, Inl x)
                    | Main_returned ws \<Rightarrow>
                        (let w3 = w2\<lparr> files := apply_writes ws (files w2) \<rparr>;
                             w4 = (if draw_mode w3 = ''SVG'' \<and> publish_mode w3 = ''PNG''
                                   then svg2png e w3 diag_name else w3)
                         in case read_file (files w4) tmpdir
                                   (nm @ ''.'' @ lower (publish_mode w4)) of
                              Inl x \<Rightarrow> (w4, Inl x)
                            | Inr dat \<Rightarrow> (w4, Inr dat)))))"

text \<open>
  The loop of the \<open>finally\<close> block (lines 131 and 132): the first \<open>os.unlink\<close> that
  raises ends it, with the files unlinked so far gone.
\<close>

fun unlink_all :: "filesystem \<Rightarrow> string \<Rightarrow> string list \<Rightarrow> filesystem \<times> exn option" where
  "unlink_all fs d [] = (fs, None)"
| "unlink_all fs d (n # ns) =
     (case os_unlink fs d n of
        Inl x \<Rightarrow> (fs, Some x)
      | Inr fs' \<Rightarrow> unlink_all fs' d ns)"

definition diag_finally :: "filesystem \<Rightarrow> string \<Rightarrow> filesystem \<times> exn option" where
  "diag_finally fs tmpdir =
     (case os_listdir fs tmpdir of
        Inl x \<Rightarrow> (fs, Some x)
      | Inr names \<Rightarrow>
          (case unlink_all fs tmpdir names of
             (fs', Some x) \<Rightarrow> (fs', Some x)
           | (fs', None) \<Rightarrow>
               (case os_rmdir fs' tmpdir of
                  Inl x \<Rightarrow> (fs', Some x)
                | Inr fs'' \<Rightarrow> (fs'', None))))"

text \<open>Lines 135 to 146: the call of \<open>publish_display_data\<close>, argument by argument.\<close>

definition publish :: "world \<Rightarrow> bytes \<Rightarrow> world" where
  "publish w dat =
     (if publish_mode w = ''SVG''
      then w\<lparr> published := published w @
                [(PyStr ''IPython.core.displaypub.publish_svg'', PyNone,
                  PyDict [(''image/svg+xml'', dat)])] \<rparr>
      else w\<lparr> published := published w @
                [(PyDict [(''image/png'', dat)], PyNone,
                  PyStr ''IPython.core.displaypub.publish_png'')] \<rparr>)"

text \<open>
  \<open>diag\<close> (lines 89 to 146). When \<open>tempfile.mkdtemp\<close> raises, \<open>tmpdir\<close> is unbound in the
  \<open>finally\<close> block, and the \<open>UnboundLocalError\<close> of \<open>os.listdir(tmpdir)\<close> is what leaves
  the function. An exception of the \<open>finally\<close> block replaces the one of the \<open>try\<close> block.
\<close>

definition diag ::
  "env \<Rightarrow> world \<Rightarrow> string \<Rightarrow> string \<Rightarrow> command \<Rightarrow> world \<times> (exn + unit)" where
  "diag e w line cell cmd =
     (let code = cell @ [CHR 0x0A] in
      case inkscape_available e w of
        (w1, avail) \<Rightarrow>
          (let w2 = (if avail then w1\<lparr> draw_mode := ''SVG'' \<rparr> else w1) in
           case tempfile_mkdtemp e (files w2) of
             Inl x \<Rightarrow> (w2, Inl (UnboundLocalError ''tmpdir''))
           | Inr (tmpdir, fs1) \<Rightarrow>
               (case diag_try e
                       (w2\<lparr> files := fs1, created_dirs := created_dirs w2 @ [tmpdir] \<rparr>)
                       tmpdir code cmd of
                  (w3, r) \<Rightarrow>
                    (case diag_finally (files w3) tmpdir of
                       (fs4, Some x) \<Rightarrow> (w3\<lparr> files := fs4 \<rparr>, Inl x)
                     | (fs4, None) \<Rightarrow>
                         (case r of
                            Inl x \<Rightarrow> (w3\<lparr> files := fs4 \<rparr>, Inl x)
                          | Inr dat \<Rightarrow> (publish (w3\<lparr> files := fs4 \<rparr>) dat, Inr ()))))))"

text \<open>The four cell magics: the import of the renderer module, then \<open>diag\<close>.\<close>

definition actdiag :: "env \<Rightarrow> world \<Rightarrow> string \<Rightarrow> string \<Rightarrow> world \<times> (exn + unit)" where
  "actdiag e w line cell =
     (case actdiag_command e of
        None \<Rightarrow> (w, Inl (ImportError ''actdiag.command''))
      | Some cmd \<Rightarrow> diag e w line cell cmd)"

definition blockdiag :: "env \<Rightarrow> world \<Rightarrow> string \<Rightarrow> string \<Rightarrow> world \<times> (exn + unit)" where
  "blockdiag e w line cell =
     (case blockdiag_command e of
        None \<Rightarrow> (w, Inl (ImportError ''blockdiag.command''))
      | Some cmd \<Rightarrow> diag e w line cell cmd)"

definition nwdiag :: "env \<Rightarrow> world \<Rightarrow> string \<Rightarrow> string \<Rightarrow> world \<times> (exn + unit)" where
  "nwdiag e w line cell =
     (case nwdiag_command e of
        None \<Rightarrow> (w, Inl (ImportError ''nwdiag.command''))
      | Some cmd \<Rightarrow> diag e w line cell cmd)"

definition seqdiag :: "env \<Rightarrow> world \<Rightarrow> string \<Rightarrow> string \<Rightarrow> world \<times> (exn + unit)" where
  "seqdiag e w line cell =
     (case seqdiag_command e of
        None \<Rightarrow> (w, Inl (ImportError ''seqdiag.command''))
      | Some cmd \<Rightarrow> diag e w line cell cmd)"

subsection \<open>Sequences of operations of one process\<close>

datatype operation =
    Load
  | Actdiag string string
  | Blockdiag string string
  | Nwdiag string string
  | Seqdiag string string
  | Setdiagsvg string "string option"
  | Setdiagpng string "string option"

text \<open>
  One operation as the host runs it: an exception of a cell magic ends the cell, and the
  globals and the outside world stay as the magic left them.
\<close>

fun step :: "env \<Rightarrow> world \<Rightarrow> operation \<Rightarrow> world" where
  "step e w Load = load_ipython_extension w"
| "step e w (Actdiag line cell) = fst (actdiag e w line cell)"
| "step e w (Blockdiag line cell) = fst (blockdiag e w line cell)"
| "step e w (Nwdiag line cell) = fst (nwdiag e w line cell)"
| "step e w (Seqdiag line cell) = fst (seqdiag e w line cell)"
| "step e w (Setdiagsvg line cell) = setdiagsvg w line cell"
| "step e w (Setdiagpng line cell) = setdiagpng w line cell"

fun run :: "env \<Rightarrow> world \<Rightarrow> operation list \<Rightarrow> world" where
  "run e w [] = w"
| "run e w (x # xs) = run e (step e w x) xs"

subsection \<open>Sample surroundings\<close>

text \<open>
  A renderer that writes the file named after \<open>-o\<close> into the directory of its input, and
  one that raises. The directory and the scratch name are those \<open>sample_env\<close> hands out.
\<close>

definition good_renderer :: command where
  "good_renderer fs argv =
     Main_returned [(''/tmp/d'', ''f.'' @ argv ! 2, File ''<image>'')]"

definition failing_renderer :: command where
  "failing_renderer fs argv = Main_raised (RendererError ''syntax error'') []"

text \<open>A renderer that writes its output file and leaves a subdirectory beside it.\<close>

definition cluttering_renderer :: command where
  "cluttering_renderer fs argv =
     Main_returned [(''/tmp/d'', ''f.'' @ argv ! 2, File ''<image>''),
                    (''/tmp/d'', ''cache'', Subdir)]"

text \<open>
  A machine where \<open>inkscape\<close> starts, exits with status \<open>rc\<close> on the probe, and writes
  the PNG file when asked to convert.
\<close>

definition inkscape_present :: "int \<Rightarrow> filesystem \<Rightarrow> string list \<Rightarrow> proc_outcome" where
  "inkscape_present rc fs args =
     (if args = probe_args then Exited rc []
      else Exited 0 [(''/tmp/d'', ''f.png'', File ''<png>'')])"

text \<open>A machine without \<open>inkscape\<close>.\<close>

definition no_inkscape :: "filesystem \<Rightarrow> string list \<Rightarrow> proc_outcome" where
  "no_inkscape fs args = Not_started ''[Errno 2] No such file or directory''"

definition sample_env :: "(filesystem \<Rightarrow> string list \<Rightarrow> proc_outcome) \<Rightarrow> command \<Rightarrow> env" where
  "sample_env sp cmd =
     \<lparr> subprocess_call = sp,
       mkdtemp_pick = (\<lambda>fs. Some ''/tmp/d''),
       mkstemp_pick = (\<lambda>fs d. Some ''f''),
       write_fault = (\<lambda>fs. False),
       actdiag_command = Some cmd, blockdiag_command = Some cmd,
       nwdiag_command = Some cmd, seqdiag_command = Some cmd \<rparr>"

definition no_files :: filesystem where
  "no_files = Map.empty"

text \<open>The two values a format flag may hold.\<close>

definition legal_mode :: "string \<Rightarrow> bool" where
  "legal_mode m = (m = ''PNG'' \<or> m = ''SVG'')"

definition is_file :: "node \<Rightarrow> bool" where
  "is_file x = (case x of File dat \<Rightarrow> True | Subdir \<Rightarrow> False)"

text \<open>Writes of an external program that leave regular files only.\<close>

definition regular_writes :: "writes \<Rightarrow> bool" where
  "regular_writes ws = list_all (\<lambda>(d, n, x). is_file x) ws"

text \<open>
  A directory that exists, lists no name twice and holds regular files only: the
  directories on which every \<open>os.unlink\<close> of the \<open>finally\<close> block succeeds.
\<close>

definition dir_ok :: "filesystem \<Rightarrow> string \<Rightarrow> bool" where
  "dir_ok fs d =
     (case fs d of None \<Rightarrow> False
      | Some es \<Rightarrow> distinct (map fst es) \<and> list_all (\<lambda>(n, x). is_file x) es)"

text \<open>
  The probe \<open>inkscape --export-png\<close> has been started at most once, and not at all while
  the cache \<open>_inkscape_available\<close> is still \<open>None\<close>.
\<close>

definition probe_bound :: "world \<Rightarrow> bool" where
  "probe_bound w =
     (count_list (spawned w) probe_args \<le> (case inkscape_cache w of None \<Rightarrow> 0 | Some _ \<Rightarrow> 1))"

section \<open>Properties\<close>

lemma lower_PNG: "lower ''PNG'' = ''png''"
  unfolding lower_def by code_simp

lemma lower_SVG: "lower ''SVG'' = ''svg''"
  unfolding lower_def by code_simp

lemmas eval_defs = diag_def diag_try_def diag_finally_def publish_def inkscape_available_def
  run_command_def svg2png_def tempfile_mkdtemp_def tempfile_mkstemp_def os_listdir_def
  os_unlink_def os_rmdir_def write_file_def put_entry_def read_file_def path_join_def module_init_def
  sample_env_def good_renderer_def failing_renderer_def cluttering_renderer_def inkscape_present_def no_inkscape_def
  probe_args_def setdiagsvg_def setdiagpng_def no_files_def lower_PNG lower_SVG Let_def

subsection \<open>What each method leaves alone\<close>

lemma run_command_modes:
  "draw_mode (fst (run_command e w a)) = draw_mode w"
  "publish_mode (fst (run_command e w a)) = publish_mode w"
  "inkscape_cache (fst (run_command e w a)) = inkscape_cache w"
  "loaded (fst (run_command e w a)) = loaded w"
  "registered (fst (run_command e w a)) = registered w"
  "stderr_lines (fst (run_command e w a)) = stderr_lines w"
  "created_dirs (fst (run_command e w a)) = created_dirs w"
  "spawned (fst (run_command e w a)) = spawned w @ [a]"
  by (simp_all add: run_command_def split: proc_outcome.split)

lemma inkscape_available_modes:
  "draw_mode (fst (inkscape_available e w)) = draw_mode w"
  "publish_mode (fst (inkscape_available e w)) = publish_mode w"
  "loaded (fst (inkscape_available e w)) = loaded w"
  "registered (fst (inkscape_available e w)) = registered w"
  "created_dirs (fst (inkscape_available e w)) = created_dirs w"
  by (simp_all add: inkscape_available_def run_command_def
        split: option.split proc_outcome.split)

lemma svg2png_modes:
  "draw_mode (svg2png e w f) = draw_mode w"
  "publish_mode (svg2png e w f) = publish_mode w"
  "inkscape_cache (svg2png e w f) = inkscape_cache w"
  "loaded (svg2png e w f) = loaded w"
  "registered (svg2png e w f) = registered w"
  "created_dirs (svg2png e w f) = created_dirs w"
  by (simp_all add: svg2png_def run_command_modes)

lemma diag_try_modes:
  "draw_mode (fst (diag_try e w t c cmd)) = draw_mode w"
  "publish_mode (fst (diag_try e w t c cmd)) = publish_mode w"
  "inkscape_cache (fst (diag_try e w t c cmd)) = inkscape_cache w"
  "loaded (fst (diag_try e w t c cmd)) = loaded w"
  "registered (fst (diag_try e w t c cmd)) = registered w"
  "created_dirs (fst (diag_try e w t c cmd)) = created_dirs w"
  by (simp_all add: diag_try_def Let_def svg2png_modes
        split: sum.split prod.split main_outcome.split option.split)

lemma publish_modes:
  "draw_mode (publish w d) = draw_mode w"
  "publish_mode (publish w d) = publish_mode w"
  "inkscape_cache (publish w d) = inkscape_cache w"
  "loaded (publish w d) = loaded w"
  "registered (publish w d) = registered w"
  "created_dirs (publish w d) = created_dirs w"
  "files (publish w d) = files w"
  by (simp_all add: publish_def)

lemma diag_modes:
  "publish_mode (fst (diag e w line cell cmd)) = publish_mode w"
  "draw_mode (fst (diag e w line cell cmd)) =
     (if snd (inkscape_available e w) then ''SVG'' else draw_mode w)"
  "loaded (fst (diag e w line cell cmd)) = loaded w"
  "registered (fst (diag e w line cell cmd)) = registered w"
  by (simp_all add: diag_def Let_def case_prod_unfold publish_modes diag_try_modes
        inkscape_available_modes split: sum.split option.split)

lemma magic_modes:
  "publish_mode (fst (actdiag e w line cell)) = publish_mode w"
  "publish_mode (fst (blockdiag e w line cell)) = publish_mode w"
  "publish_mode (fst (nwdiag e w line cell)) = publish_mode w"
  "publish_mode (fst (seqdiag e w line cell)) = publish_mode w"
  "loaded (fst (actdiag e w line cell)) = loaded w"
  "loaded (fst (blockdiag e w line cell)) = loaded w"
  "loaded (fst (nwdiag e w line cell)) = loaded w"
  "loaded (fst (seqdiag e w line cell)) = loaded w"
  "registered (fst (actdiag e w line cell)) = registered w"
  "registered (fst (blockdiag e w line cell)) = registered w"
  "registered (fst (nwdiag e w line cell)) = registered w"
  "registered (fst (seqdiag e w line cell)) = registered w"
  by (simp_all add: actdiag_def blockdiag_def nwdiag_def seqdiag_def diag_modes
        split: option.split)

lemma magic_draw_mode:
  "draw_mode (fst (actdiag e w line cell)) = draw_mode w
     \<or> draw_mode (fst (actdiag e w line cell)) = ''SVG''"
  "draw_mode (fst (blockdiag e w line cell)) = draw_mode w
     \<or> draw_mode (fst (blockdiag e w line cell)) = ''SVG''"
  "draw_mode (fst (nwdiag e w line cell)) = draw_mode w
     \<or> draw_mode (fst (nwdiag e w line cell)) = ''SVG''"
  "draw_mode (fst (seqdiag e w line cell)) = draw_mode w
     \<or> draw_mode (fst (seqdiag e w line cell)) = ''SVG''"
  by (simp_all add: actdiag_def blockdiag_def nwdiag_def seqdiag_def diag_modes
        split: option.split)

subsection \<open>The format flags\<close>

text \<open>
  C1, as the code has it. The claim says that \<open>diag\<close> only reads the two flags. It does
  leave the publish mode alone, but lines 93 to 95 assign the draw mode: after \<open>diag\<close>
  the draw mode is \<open>'SVG'\<close> whenever \<open>inkscape_available()\<close> answered true, and is
  unchanged otherwise. Loading the extension changes neither flag.
\<close>

theorem diag_mode_flags:
  "publish_mode (fst (diag e w line cell cmd)) = publish_mode w \<and>
   draw_mode (fst (diag e w line cell cmd)) =
     (if snd (inkscape_available e w) then ''SVG'' else draw_mode w) \<and>
   draw_mode (load_ipython_extension w) = draw_mode w \<and>
   publish_mode (load_ipython_extension w) = publish_mode w"
  by (simp add: diag_modes load_ipython_extension_def)

text \<open>
  C1 as stated fails: in a fresh process on a machine where the probe of \<open>inkscape\<close>
  exits with status 0, one render moves the draw mode from \<open>'PNG'\<close> to \<open>'SVG'\<close>.
\<close>

theorem diag_changes_draw_mode:
  "draw_mode (fst (diag (sample_env (inkscape_present 0) good_renderer)
                     (module_init no_files) [] ''{A -> B;}'' good_renderer))
     \<noteq> draw_mode (module_init no_files)"
  by (simp add: eval_defs)

text \<open>
  C5: \<open>%setdiagsvg\<close> followed by \<open>%setdiagpng\<close> leaves the draw mode and the publish mode
  both \<open>'PNG'\<close>, whatever they were before and whatever the arguments of the two magics.
\<close>

theorem toggle_svg_then_png:
  "draw_mode (setdiagpng (setdiagsvg w line cell) line' cell') = ''PNG'' \<and>
   publish_mode (setdiagpng (setdiagsvg w line cell) line' cell') = ''PNG''"
  by (simp add: setdiagpng_def)

lemma step_legal:
  assumes "legal_mode (draw_mode w)" "legal_mode (publish_mode w)"
  shows "legal_mode (draw_mode (step e w x)) \<and> legal_mode (publish_mode (step e w x))"
proof (cases x)
  case Load
  then show ?thesis using assms by (simp add: load_ipython_extension_def)
next
  case (Actdiag l c)
  then show ?thesis using assms magic_draw_mode(1)[of e w l c]
    by (auto simp: magic_modes legal_mode_def)
next
  case (Blockdiag l c)
  then show ?thesis using assms magic_draw_mode(2)[of e w l c]
    by (auto simp: magic_modes legal_mode_def)
next
  case (Nwdiag l c)
  then show ?thesis using assms magic_draw_mode(3)[of e w l c]
    by (auto simp: magic_modes legal_mode_def)
next
  case (Seqdiag l c)
  then show ?thesis using assms magic_draw_mode(4)[of e w l c]
    by (auto simp: magic_modes legal_mode_def)
next
  case (Setdiagsvg l c)
  then show ?thesis by (simp add: setdiagsvg_def legal_mode_def)
next
  case (Setdiagpng l c)
  then show ?thesis by (simp add: setdiagpng_def legal_mode_def)
qed

lemma run_legal:
  "legal_mode (draw_mode w) \<Longrightarrow> legal_mode (publish_mode w) \<Longrightarrow>
   legal_mode (draw_mode (run e w xs)) \<and> legal_mode (publish_mode (run e w xs))"
proof (induction xs arbitrary: w)
  case Nil
  then show ?case by simp
next
  case (Cons x xs)
  from step_legal[OF Cons.prems, of e x] Cons.IH[of "step e w x"]
  show ?case by simp
qed

text \<open>
  C8: in a process that starts from the module's initial values, after every sequence of
  operations (loading the extension, the four cell magics whether they return or raise,
  the two toggles) and in every surrounding, each of the two format flags is \<open>'PNG'\<close> or
  \<open>'SVG'\<close>.
\<close>

theorem flags_always_legal:
  "legal_mode (draw_mode (run e (module_init fs0) ops)) \<and>
   legal_mode (publish_mode (run e (module_init fs0) ops))"
  by (rule run_legal) (simp_all add: module_init_def legal_mode_def)

subsection \<open>Loading the extension\<close>

lemma step_loaded:
  "loaded (step e w x) = (loaded w \<or> x = Load)"
  by (cases x)
    (simp_all add: magic_modes load_ipython_extension_def setdiagsvg_def setdiagpng_def)

lemma step_registered:
  "registered (step e w x) =
     (if x = Load \<and> \<not> loaded w then registered w @ [''BlockdiagMagics'']
      else registered w)"
  by (cases x)
    (simp_all add: magic_modes load_ipython_extension_def setdiagsvg_def setdiagpng_def)

lemma run_registered:
  "registered (run e w xs) =
     (if Load \<in> set xs \<and> \<not> loaded w then registered w @ [''BlockdiagMagics'']
      else registered w)"
proof (induction xs arbitrary: w)
  case Nil
  then show ?case by simp
next
  case (Cons x xs)
  show ?case
    using step_loaded[of e w x] step_registered[of e w x]
    by (cases "x = Load") (simp_all add: Cons.IH load_ipython_extension_def)
qed

text \<open>
  C10: in one process, however many times \<open>load_ipython_extension\<close> is called and
  whatever else runs in between, \<open>register_magics\<close> has been called once if the
  extension was loaded at all and never otherwise; a second call of
  \<open>load_ipython_extension\<close> changes nothing.
\<close>

theorem load_registers_once:
  "registered (run e (module_init fs0) ops) =
     (if Load \<in> set ops then [''BlockdiagMagics''] else []) \<and>
   load_ipython_extension (load_ipython_extension w) = load_ipython_extension w"
  by (simp add: run_registered module_init_def load_ipython_extension_def)

subsection \<open>The probe of the converter\<close>

lemma probe_first:
  "inkscape_cache w = None \<Longrightarrow>
     inkscape_cache (fst (inkscape_available e w)) = Some (snd (inkscape_available e w)) \<and>
     spawned (fst (inkscape_available e w)) = spawned w @ [probe_args]"
  by (simp add: inkscape_available_def run_command_def split: proc_outcome.split)

lemma probe_cached:
  "inkscape_cache w = Some b \<Longrightarrow> inkscape_available e w = (w, b)"
  by (simp add: inkscape_available_def)

lemma inkscape_available_bound:
  "probe_bound w \<Longrightarrow> probe_bound (fst (inkscape_available e w))"
  by (cases "inkscape_cache w")
     (simp_all add: probe_bound_def inkscape_available_def run_command_def
        split: proc_outcome.split)

lemma diag_try_spawned:
  "count_list (spawned (fst (diag_try e w t c cmd))) probe_args
     = count_list (spawned w) probe_args"
  by (simp add: diag_try_def Let_def svg2png_def run_command_modes probe_args_def
        split: sum.split prod.split main_outcome.split option.split)

lemma diag_probe:
  "inkscape_cache (fst (diag e w line cell cmd)) = inkscape_cache (fst (inkscape_available e w))"
  "count_list (spawned (fst (diag e w line cell cmd))) probe_args
     = count_list (spawned (fst (inkscape_available e w))) probe_args"
  by (simp_all add: diag_def Let_def case_prod_unfold publish_def diag_try_modes
        diag_try_spawned split: sum.split option.split)

lemma diag_bound: "probe_bound w \<Longrightarrow> probe_bound (fst (diag e w line cell cmd))"
  using inkscape_available_bound[of w e] by (simp add: probe_bound_def diag_probe)

lemma magic_bound:
  "probe_bound w \<Longrightarrow> probe_bound (fst (actdiag e w line cell))"
  "probe_bound w \<Longrightarrow> probe_bound (fst (blockdiag e w line cell))"
  "probe_bound w \<Longrightarrow> probe_bound (fst (nwdiag e w line cell))"
  "probe_bound w \<Longrightarrow> probe_bound (fst (seqdiag e w line cell))"
  by (simp_all add: actdiag_def blockdiag_def nwdiag_def seqdiag_def diag_bound
        split: option.split)

lemma toggle_bound:
  "probe_bound w \<Longrightarrow> probe_bound (load_ipython_extension w)"
  "probe_bound w \<Longrightarrow> probe_bound (setdiagsvg w line c)"
  "probe_bound w \<Longrightarrow> probe_bound (setdiagpng w line c)"
  by (simp_all add: probe_bound_def load_ipython_extension_def setdiagsvg_def setdiagpng_def)

lemma step_bound: "probe_bound w \<Longrightarrow> probe_bound (step e w x)"
  by (cases x) (simp_all add: magic_bound toggle_bound)

lemma run_bound: "probe_bound w \<Longrightarrow> probe_bound (run e w xs)"
  by (induction xs arbitrary: w) (simp_all add: step_bound)

lemma diag_cache_kept:
  "inkscape_cache w = Some b \<Longrightarrow> inkscape_cache (fst (diag e w line cell cmd)) = Some b"
  by (simp add: diag_probe probe_cached)

lemma step_cache_kept:
  "inkscape_cache w = Some b \<Longrightarrow> inkscape_cache (step e w x) = Some b"
  by (cases x)
     (simp_all add: actdiag_def blockdiag_def nwdiag_def seqdiag_def diag_cache_kept
        load_ipython_extension_def setdiagsvg_def setdiagpng_def split: option.split)

lemma run_cache_kept:
  "inkscape_cache w = Some b \<Longrightarrow> inkscape_cache (run e w xs) = Some b"
  by (induction xs arbitrary: w) (simp_all add: step_cache_kept)

text \<open>
  What the first call answers: whether the probe could be started, whatever its exit code.
\<close>

lemma probe_answer:
  "inkscape_cache w = None \<Longrightarrow>
     snd (inkscape_available e w) =
       (case subprocess_call e (files w) probe_args of
          Exited rc ws \<Rightarrow> True | Not_started msg \<Rightarrow> False)"
  by (simp add: inkscape_available_def run_command_def split: proc_outcome.split)

text \<open>
  C4: a call of \<open>inkscape_available\<close> that finds the cache empty hands the probe to
  \<open>run_command\<close> once, answers what \<open>run_command\<close> answered (true when
  \<open>subprocess.call\<close> could start the program, false when it raised \<open>OSError\<close>) and
  stores that boolean, the rest of the world being as the probe left it; a call that
  finds a stored boolean, true or false, returns it and leaves the whole world as it was,
  in any surrounding, and no later operation of the process clears the cache. In a
  process that starts from the module's initial values the probe is started at most
  once, whatever is run.
\<close>

theorem inkscape_probe_once:
  "(inkscape_cache w = None \<longrightarrow>
      inkscape_available e w =
        ((fst (run_command e w probe_args))
           \<lparr> inkscape_cache := Some (snd (run_command e w probe_args)) \<rparr>,
         snd (run_command e w probe_args)) \<and>
      snd (inkscape_available e w) =
        (case subprocess_call e (files w) probe_args of
           Exited rc ws \<Rightarrow> True | Not_started msg \<Rightarrow> False) \<and>
      inkscape_cache (fst (inkscape_available e w)) = Some (snd (inkscape_available e w)) \<and>
      spawned (fst (inkscape_available e w)) = spawned w @ [probe_args]) \<and>
   (inkscape_cache w = Some b \<longrightarrow>
      inkscape_available e w = (w, b) \<and> inkscape_cache (run e w ops) = Some b) \<and>
   count_list (spawned (run e (module_init fs0) ops)) probe_args \<le> 1"
proof -
  have "probe_bound (module_init fs0)" by (simp add: probe_bound_def module_init_def)
  then have "probe_bound (run e (module_init fs0) ops)" by (rule run_bound)
  then have c: "count_list (spawned (run e (module_init fs0) ops)) probe_args \<le> 1"
    by (simp add: probe_bound_def split: option.splits)
  have a: "inkscape_available e w =
        ((fst (run_command e w probe_args))
           \<lparr> inkscape_cache := Some (snd (run_command e w probe_args)) \<rparr>,
         snd (run_command e w probe_args))" if "inkscape_cache w = None"
    using that by (simp add: inkscape_available_def case_prod_unfold)
  show ?thesis
    using a c probe_first[of w e] probe_answer[of w e] probe_cached[of w b e]
      run_cache_kept[of w b e ops]
    by blast
qed

text \<open>
  The theorem at work. In a fresh process the first call stores \<open>False\<close> on a machine
  without \<open>inkscape\<close> and \<open>True\<close> on a machine where the probe starts, with one probe
  in the log either way. A stored \<open>True\<close> is answered on a machine that has lost
  \<open>inkscape\<close>, and a stored \<open>False\<close> on a machine that has gained it, without a new
  probe; two renders start the probe once.
\<close>

theorem inkscape_probe_once_witness:
  "inkscape_cache (module_init no_files) = None \<and>
   inkscape_cache (fst (inkscape_available (sample_env no_inkscape good_renderer)
                          (module_init no_files))) = Some False \<and>
   spawned (fst (inkscape_available (sample_env no_inkscape good_renderer)
                   (module_init no_files))) = [probe_args] \<and>
   inkscape_cache (fst (inkscape_available (sample_env (inkscape_present 0) good_renderer)
                          (module_init no_files))) = Some True \<and>
   spawned (fst (inkscape_available (sample_env (inkscape_present 0) good_renderer)
                   (module_init no_files))) = [probe_args] \<and>
   inkscape_available (sample_env no_inkscape good_renderer)
     (fst (inkscape_available (sample_env (inkscape_present 0) good_renderer)
             (module_init no_files)))
     = (fst (inkscape_available (sample_env (inkscape_present 0) good_renderer)
               (module_init no_files)), True) \<and>
   inkscape_available (sample_env (inkscape_present 0) good_renderer)
     (fst (inkscape_available (sample_env no_inkscape good_renderer)
             (module_init no_files)))
     = (fst (inkscape_available (sample_env no_inkscape good_renderer)
               (module_init no_files)), False) \<and>
   count_list (spawned (run (sample_env no_inkscape good_renderer) (module_init no_files)
                          [Blockdiag [] ''{A -> B;}'', Seqdiag [] ''{A -> B;}'']))
              probe_args = 1"
  using inkscape_probe_once[of "module_init no_files" "sample_env no_inkscape good_renderer"
          False "[]" no_files]
        inkscape_probe_once[of "module_init no_files"
          "sample_env (inkscape_present 0) good_renderer" False "[]" no_files]
        inkscape_probe_once[of "fst (inkscape_available
                  (sample_env (inkscape_present 0) good_renderer) (module_init no_files))"
          "sample_env no_inkscape good_renderer" True "[]" no_files]
        inkscape_probe_once[of "fst (inkscape_available (sample_env no_inkscape good_renderer)
                  (module_init no_files))" "sample_env (inkscape_present 0) good_renderer"
          False "[]" no_files]
  by (simp add: eval_defs blockdiag_def seqdiag_def)

text \<open>
  C2 on a machine where \<open>inkscape\<close> starts and the probe exits with status 1: the
  converter is recorded as available. \<open>run_command\<close> calls \<open>subprocess.call\<close> and drops
  the exit code, so its handler of \<open>CalledProcessError\<close>, which would return \<open>False\<close>,
  is never entered.
\<close>

theorem probe_exit_status_ignored:
  "subprocess_call (sample_env (inkscape_present 1) good_renderer) no_files probe_args
     = Exited 1 [] \<and>
   snd (inkscape_available (sample_env (inkscape_present 1) good_renderer)
          (module_init no_files)) = True \<and>
   inkscape_cache (fst (inkscape_available (sample_env (inkscape_present 1) good_renderer)
          (module_init no_files))) = Some True"
  by (simp add: eval_defs)

text \<open>
  C6 at its two failures. A command that exits with status 1: \<open>run_command\<close> returns
  \<open>True\<close> and prints nothing. A command that cannot be started: \<open>run_command\<close> returns
  \<open>False\<close>, and its line goes to standard output, not to standard error.
\<close>

theorem run_command_failure_reports:
  "snd (run_command (sample_env (inkscape_present 1) good_renderer)
          (module_init no_files) probe_args) = True \<and>
   stderr_lines (fst (run_command (sample_env (inkscape_present 1) good_renderer)
          (module_init no_files) probe_args)) = [] \<and>
   stdout_lines (fst (run_command (sample_env (inkscape_present 1) good_renderer)
          (module_init no_files) probe_args)) = [] \<and>
   snd (run_command (sample_env no_inkscape good_renderer)
          (module_init no_files) probe_args) = False \<and>
   stderr_lines (fst (run_command (sample_env no_inkscape good_renderer)
          (module_init no_files) probe_args)) = [] \<and>
   stdout_lines (fst (run_command (sample_env no_inkscape good_renderer)
          (module_init no_files) probe_args))
     = [''Exception [Errno 2] No such file or directory'']"
  by (simp add: eval_defs)

subsection \<open>The scratch directory\<close>

lemma put_entry_dir_ok: "dir_ok fs d \<Longrightarrow> is_file x \<Longrightarrow> dir_ok (put_entry fs d' n x) d"
proof -
  have upd: "list_all (\<lambda>(n, x). is_file x) (AList.update n x es)"
    if "list_all (\<lambda>(n, x). is_file x) es" "is_file x" for es
    using that by (induction es) auto
  assume "dir_ok fs d" "is_file x"
  then show ?thesis
    by (auto simp: dir_ok_def put_entry_def distinct_update upd split: option.splits)
qed

lemma write_file_dir_ok: "dir_ok fs d \<Longrightarrow> dir_ok (write_file fs d' n dat) d"
  by (simp add: write_file_def put_entry_dir_ok is_file_def)

lemma apply_writes_dir_ok:
  "dir_ok fs d \<Longrightarrow> regular_writes ws \<Longrightarrow> dir_ok (apply_writes ws fs) d"
  by (induction ws fs rule: apply_writes.induct)
     (simp_all add: put_entry_dir_ok regular_writes_def)

lemma run_command_dir_ok:
  assumes "dir_ok (files w) d"
    and "\<And>fs a rc ws. subprocess_call e fs a = Exited rc ws \<Longrightarrow> regular_writes ws"
  shows "dir_ok (files (fst (run_command e w a))) d"
  using assms by (simp add: run_command_def apply_writes_dir_ok split: proc_outcome.split)

lemma svg2png_dir_ok:
  assumes "dir_ok (files w) d"
    and "\<And>fs a rc ws. subprocess_call e fs a = Exited rc ws \<Longrightarrow> regular_writes ws"
  shows "dir_ok (files (svg2png e w f)) d"
  using assms by (simp add: svg2png_def run_command_dir_ok)

lemma mkstemp_dir_ok:
  "tempfile_mkstemp e fs d' = Inr (n, fs1) \<Longrightarrow> dir_ok fs d \<Longrightarrow> dir_ok fs1 d"
proof -
  have upd: "list_all (\<lambda>(n, x). is_file x) (AList.update n (File []) es)"
    if "list_all (\<lambda>(n, x). is_file x) es" for es
    using that by (induction es) (auto simp: is_file_def)
  assume "tempfile_mkstemp e fs d' = Inr (n, fs1)" "dir_ok fs d"
  then show ?thesis
    by (auto simp: tempfile_mkstemp_def dir_ok_def distinct_update upd
          split: option.splits if_splits)
qed

lemma diag_try_dir_ok:
  assumes ok: "dir_ok (files w) d"
    and sp: "\<And>fs a rc ws. subprocess_call e fs a = Exited rc ws \<Longrightarrow> regular_writes ws"
    and ret: "\<And>fs a ws. cmd fs a = Main_returned ws \<Longrightarrow> regular_writes ws"
    and rai: "\<And>fs a x ws. cmd fs a = Main_raised x ws \<Longrightarrow> regular_writes ws"
  shows "dir_ok (files (fst (diag_try e w t c cmd))) d"
proof (cases "tempfile_mkstemp e (files w) t")
  case (Inl x)
  then show ?thesis using ok by (simp add: diag_try_def)
next
  case (Inr p)
  obtain nm fs1 where p: "p = (nm, fs1)" by (cases p)
  have ok1: "dir_ok fs1 d" using mkstemp_dir_ok Inr p ok by blast
  show ?thesis
  proof (cases "write_fault e fs1")
    case True
    then show ?thesis using Inr p ok1 by (simp add: diag_try_def)
  next
    case False
    define w2 where "w2 = w\<lparr> files := write_file fs1 t nm c \<rparr>"
    define argv where
      "argv = [path_join t nm, ''-T'', lower (draw_mode w), ''-o'',
               path_join t nm @ ''.'' @ lower (draw_mode w)]
              @ (if draw_mode w = ''SVG'' then [[]] else [])"
    have ok2: "dir_ok (files w2) d" by (simp add: w2_def write_file_dir_ok[OF ok1])
    show ?thesis
    proof (cases "cmd (files w2) argv")
      case (Main_raised x ws)
      have "dir_ok (apply_writes ws (files w2)) d"
        using ok2 rai[OF Main_raised] by (rule apply_writes_dir_ok)
      then show ?thesis
        using Inr p False Main_raised
        by (simp add: diag_try_def Let_def w2_def argv_def)
    next
      case (Main_returned ws)
      define w3 where "w3 = w2\<lparr> files := apply_writes ws (files w2) \<rparr>"
      have ok3: "dir_ok (files w3) d"
        using ok2 ret[OF Main_returned] by (simp add: w3_def apply_writes_dir_ok)
      have ok4: "dir_ok (files (svg2png e w3 (path_join t nm))) d"
        using ok3 sp by (rule svg2png_dir_ok)
      show ?thesis
        using Inr p False Main_returned ok3 ok4
        by (simp add: diag_try_def Let_def w2_def argv_def w3_def split: sum.split)
    qed
  qed
qed

lemma unlink_all_distinct:
  "fs d = Some es \<Longrightarrow> distinct (map fst es) \<Longrightarrow> list_all (\<lambda>(n, x). is_file x) es \<Longrightarrow>
   unlink_all fs d (map fst es) = (fs(d \<mapsto> []), None)"
proof (induction es arbitrary: fs)
  case Nil
  then show ?case by (simp add: fun_upd_idem)
next
  case (Cons a es)
  obtain k v where a: "a = (k, v)" by (cases a)
  from Cons.prems a have notin: "k \<notin> fst ` set es" and dist: "distinct (map fst es)"
    and reg: "list_all (\<lambda>(n, x). is_file x) es"
    by auto
  from Cons.prems(3) a obtain dat where v: "v = File dat"
    by (cases v) (simp_all add: is_file_def)
  have ul: "os_unlink fs d k = Inr (fs(d \<mapsto> es))"
    using Cons.prems(1) a v notin by (simp add: os_unlink_def)
  have "unlink_all (fs(d \<mapsto> es)) d (map fst es) = ((fs(d \<mapsto> es))(d \<mapsto> []), None)"
    by (rule Cons.IH) (simp_all add: dist reg)
  then have "unlink_all (fs(d \<mapsto> es)) d (map fst es) = (fs(d \<mapsto> []), None)"
    by simp
  moreover have "unlink_all fs d (map fst (a # es)) = unlink_all (fs(d \<mapsto> es)) d (map fst es)"
    by (simp add: ul a)
  ultimately show ?case by (simp only:)
qed

lemma diag_finally_ok:
  assumes "dir_ok fs d"
  shows "diag_finally fs d = (fs(d := None), None)"
proof -
  from assms obtain es where es: "fs d = Some es" "distinct (map fst es)"
    "list_all (\<lambda>(n, x). is_file x) es"
    by (auto simp: dir_ok_def split: option.splits)
  show ?thesis
    using es unlink_all_distinct[of fs d es]
    by (simp add: diag_finally_def os_listdir_def os_rmdir_def)
qed

lemma mkdtemp_dir_ok:
  "tempfile_mkdtemp e fs = Inr (t, fs1) \<Longrightarrow> dir_ok fs1 t"
  by (auto simp: tempfile_mkdtemp_def dir_ok_def split: option.splits)

lemma diag_created:
  "created_dirs (fst (diag e w line cell cmd)) =
     created_dirs w @
       (case tempfile_mkdtemp e (files (fst (inkscape_available e w))) of
          Inl x \<Rightarrow> [] | Inr (t, fs1) \<Rightarrow> [t])"
  by (simp add: diag_def Let_def case_prod_unfold publish_modes diag_try_modes
        inkscape_available_modes split: sum.split option.split)

text \<open>
  Where the cleanup works: when the external programs leave regular files only, the
  directory that the \<open>tempfile.mkdtemp\<close> call of \<open>diag\<close> created is gone when \<open>diag\<close> is
  left, whether \<open>diag\<close> returns or an exception of the \<open>try\<close> block leaves it.
\<close>

lemma diag_removes_regular_tmpdir:
  assumes mk0: "tempfile_mkdtemp e (files (fst (inkscape_available e w))) = Inr (t, fs1)"
    and sp: "\<And>fs a rc ws. subprocess_call e fs a = Exited rc ws \<Longrightarrow> regular_writes ws"
    and ret: "\<And>fs a ws. cmd fs a = Main_returned ws \<Longrightarrow> regular_writes ws"
    and rai: "\<And>fs a x ws. cmd fs a = Main_raised x ws \<Longrightarrow> regular_writes ws"
  shows "files (fst (diag e w line cell cmd)) t = None"
proof -
  obtain w1 a where ia: "inkscape_available e w = (w1, a)"
    by (cases "inkscape_available e w")
  define w2 where "w2 = (if a then w1\<lparr> draw_mode := ''SVG'' \<rparr> else w1)"
  have f2: "files w2 = files w1" by (simp add: w2_def)
  have mk: "tempfile_mkdtemp e (files w2) = Inr (t, fs1)" using mk0 ia f2 by simp
  define w2' where "w2' = w2\<lparr> files := fs1, created_dirs := created_dirs w2 @ [t] \<rparr>"
  obtain w3 r where dt: "diag_try e w2' t (cell @ [CHR 0x0A]) cmd = (w3, r)"
    by (cases "diag_try e w2' t (cell @ [CHR 0x0A]) cmd")
  have "dir_ok (files w2') t" using mkdtemp_dir_ok[OF mk] by (simp add: w2'_def)
  then have "dir_ok (files (fst (diag_try e w2' t (cell @ [CHR 0x0A]) cmd))) t"
    using sp ret rai by (rule diag_try_dir_ok)
  then have "dir_ok (files w3) t" using dt by simp
  then have fin: "diag_finally (files w3) t = ((files w3)(t := None), None)"
    by (rule diag_finally_ok)
  show ?thesis
    using ia mk dt fin
    by (simp add: diag_def Let_def w2_def[symmetric] w2'_def[symmetric] publish_modes
          split: sum.split)
qed

text \<open>
  C3 where the cleanup fails. The renderer writes its output file and leaves a
  subdirectory in the scratch directory. The render itself succeeds, but in the \<open>finally\<close>
  block \<open>os.unlink\<close> raises on the subdirectory, \<open>os.rmdir\<close> is never reached, the
  \<open>OSError\<close> leaves \<open>diag\<close>, nothing is published, and the directory that
  \<open>tempfile.mkdtemp\<close> created is still there.
\<close>

theorem tmpdir_left_behind:
  "created_dirs (fst (diag (sample_env no_inkscape cluttering_renderer) (module_init no_files)
                        [] ''{A -> B;}'' cluttering_renderer)) = [''/tmp/d''] \<and>
   files (fst (diag (sample_env no_inkscape cluttering_renderer) (module_init no_files)
                 [] ''{A -> B;}'' cluttering_renderer)) ''/tmp/d''
     = Some [(''cache'', Subdir)] \<and>
   snd (diag (sample_env no_inkscape cluttering_renderer) (module_init no_files)
          [] ''{A -> B;}'' cluttering_renderer) = Inl (OSError ''Is a directory'') \<and>
   published (fst (diag (sample_env no_inkscape cluttering_renderer) (module_init no_files)
                     [] ''{A -> B;}'' cluttering_renderer)) = []"
  by (simp add: eval_defs)

subsection \<open>Conversion and publication\<close>

text \<open>
  Once the renderer has returned, \<open>diag\<close> starts the conversion exactly when the draw
  mode is \<open>'SVG'\<close> and the publish mode is \<open>'PNG'\<close>.
\<close>

lemma diag_try_conversion:
  assumes "tempfile_mkstemp e (files w) t = Inr (nm, fs1)"
    and "\<not> write_fault e fs1"
    and "cmd (write_file fs1 t nm c)
           ([path_join t nm, ''-T'', lower (draw_mode w), ''-o'',
             path_join t nm @ ''.'' @ lower (draw_mode w)]
            @ (if draw_mode w = ''SVG'' then [[]] else [])) = Main_returned ws"
  shows "spawned (fst (diag_try e w t c cmd)) =
           spawned w @
             (if draw_mode w = ''SVG'' \<and> publish_mode w = ''PNG''
              then [[''inkscape'', path_join t nm @ ''.svg'',
                     ''--export-png='' @ path_join t nm @ ''.png'']]
              else [])"
  using assms
  by (simp add: diag_try_def Let_def svg2png_def run_command_modes split: sum.split)

text \<open>
  C7 in the two publish modes, on a machine without \<open>inkscape\<close>. In PNG mode the mapping
  from the MIME type to the bytes is the first argument of \<open>publish_display_data\<close>; in
  SVG mode the first argument is the string \<open>'IPython.core.displaypub.publish_svg'\<close> and
  the mapping comes third.
\<close>

theorem svg_publish_arguments:
  "published (fst (diag (sample_env no_inkscape good_renderer)
                     (setdiagsvg (module_init no_files) [] None)
                     [] ''{A -> B;}'' good_renderer))
     = [(PyStr ''IPython.core.displaypub.publish_svg'', PyNone,
         PyDict [(''image/svg+xml'', ''<image>'')])] \<and>
   published (fst (diag (sample_env no_inkscape good_renderer)
                     (module_init no_files)
                     [] ''{A -> B;}'' good_renderer))
     = [(PyDict [(''image/png'', ''<image>'')], PyNone,
         PyStr ''IPython.core.displaypub.publish_png'')]"
  by (simp add: eval_defs)

end
